theory Spec2Isabelle
  imports Main
begin

section \<open>Recipient expressions\<close>

text \<open>
  Source: \<^verbatim>\<open>src/apps/api/src/app/events/events.controller.ts\<close>, which holds the
  \<^verbatim>\<open>EventsController\<close> class (lines 32-214) and the \<^verbatim>\<open>MapTriggerRecipients\<close> use case
  (lines 249-354).

  A recipient arrives as a JSON value. The code looks at three things only: whether the
  value is a string, whether it is nullish (\<^verbatim>\<open>?.\<close>), and the fields \<^verbatim>\<open>type\<close>,
  \<^verbatim>\<open>subscriberId\<close> and \<^verbatim>\<open>topicId\<close> of an object. Every other field of an object
  (e-mail, names, ...) is carried along untouched in \<open>profile\<close>. An absent field is
  \<open>None\<close>.
\<close>

record RecipientObject =
  type :: "string option"
  subscriberId :: "string option"
  topicId :: "string option"
  profile :: "(string \<times> string) list"

datatype TriggerRecipient =
    Str string
  | Obj RecipientObject
  | Null
  | Undefined

text \<open>
  TypeScript types are erased at run time: \<^verbatim>\<open>mapSubscriber\<close> returns a value that is
  not a string unchanged, so the values of \<^verbatim>\<open>ISubscribersDefine[]\<close> lists are recipient
  values again.
\<close>

type_synonym ISubscribersDefine = TriggerRecipient

text \<open>The \<^verbatim>\<open>to\<close> field and \<^verbatim>\<open>command.recipients\<close>: one recipient or an array of them.\<close>

datatype TriggerRecipientsPayload =
    Single TriggerRecipient
  | Many "TriggerRecipient list"

text \<open>
  \<^verbatim>\<open>TriggerRecipientsTypeEnum\<close> is imported from \<^verbatim>\<open>@novu/shared\<close>; its two string
  values are not part of the source at hand, so every function that reads them takes the
  enumeration as its parameter \<open>E\<close>.
\<close>

record TriggerRecipientsTypeEnum =
  SUBSCRIBER :: string
  TOPIC :: string

text \<open>JavaScript truthiness of an optional string: \<^verbatim>\<open>undefined\<close> and \<^verbatim>\<open>''\<close> are falsy.\<close>

definition truthy :: "string option \<Rightarrow> bool" where
  "truthy v = (case v of None \<Rightarrow> False | Some s \<Rightarrow> s \<noteq> [])"

text \<open>\<^verbatim>\<open>x?.type\<close>: \<^verbatim>\<open>undefined\<close> on a nullish value and on a string.\<close>

definition type_of :: "TriggerRecipient \<Rightarrow> string option" where
  "type_of r = (case r of Obj ob \<Rightarrow> type ob | _ \<Rightarrow> None)"

text \<open>\<^verbatim>\<open>topic?.topicId || ''\<close> (lines 286 and 298).\<close>

definition topicId_or_empty :: "TriggerRecipient \<Rightarrow> string" where
  "topicId_or_empty topic =
     (case topic of
        Obj ob \<Rightarrow> (if truthy (topicId ob) then the (topicId ob) else [])
      | _ \<Rightarrow> [])"

text \<open>The object literal \<^verbatim>\<open>{ subscriberId: s }\<close>.\<close>

definition subscriberId_only :: "string \<Rightarrow> ISubscribersDefine" where
  "subscriberId_only s =
     Obj \<lparr>type = None, subscriberId = Some s, topicId = None, profile = []\<rparr>"

section \<open>Commands, collaborators and the record of calls\<close>

text \<open>
  The command classes (\<^verbatim>\<open>GetTopicSubscribersCommand\<close>, \<^verbatim>\<open>CreateLogCommand\<close>,
  \<^verbatim>\<open>TriggerEventCommand\<close>, \<^verbatim>\<open>TriggerEventToAllCommand\<close>) are imported; their static
  \<^verbatim>\<open>create\<close> builds the command from the object literal it is given, so a command is
  the record of the fields the source passes. A use case that is awaited answers with a
  value or with an error. The promise of \<^verbatim>\<open>createLog.execute\<close> is not awaited: the call
  answers with a promise that is fulfilled or rejected later. The functions of the section
  \<open>MapTriggerRecipients\<close> take it that the log call gets as far as that promise; the
  section after it drops this and lets \<^verbatim>\<open>CreateLogCommand.create\<close> and
  \<^verbatim>\<open>createLog.execute\<close> throw before any promise exists. An answer \<open>Inl\<close> of the topic
  resolver stands for any exception inside the \<^verbatim>\<open>try\<close> block of lines 283-294.
\<close>

text \<open>Any thrown exception or promise rejection, with its message.\<close>

datatype error = Error string

text \<open>A settled promise of a call whose value is not used.\<close>

datatype promise = Fulfilled | Rejected error

record GetTopicSubscribersCommand =
  gts_environmentId :: string
  gts_topicId :: string
  gts_organizationId :: string
  gts_userId :: string

record TopicSubscribersResponse =
  response_subscribers :: "string list"

text \<open>
  \<^verbatim>\<open>CreateLogCommand\<close> (lines 338-349). The constants \<^verbatim>\<open>LogStatusEnum.ERROR\<close> and
  \<^verbatim>\<open>LogCodeEnum.TOPIC_SUBSCRIBERS_ERROR\<close> are kept as tags.
\<close>

datatype LogStatusEnum = LogStatus_ERROR

datatype LogCodeEnum = TOPIC_SUBSCRIBERS_ERROR

record CreateLogCommand =
  log_transactionId :: string
  log_status :: LogStatusEnum
  log_environmentId :: string
  log_organizationId :: string
  log_text :: string
  log_userId :: string
  log_code :: LogCodeEnum
  log_raw_topicId :: string

record ILogTopicSubscribersPayload =
  ilp_environmentId :: string
  ilp_organizationId :: string
  ilp_topicId :: string
  ilp_transactionId :: string
  ilp_userId :: string

record MapTriggerRecipientsCommand =
  mtr_environmentId :: string
  mtr_organizationId :: string
  mtr_recipients :: TriggerRecipientsPayload
  mtr_transactionId :: string
  mtr_userId :: string

record IJwtPayload =
  jwt_id :: string
  jwt_environmentId :: string
  jwt_organizationId :: string

text \<open>
  The request bodies. \<open>'p\<close> is the type of the free-form \<^verbatim>\<open>payload\<close> and of the values
  of \<^verbatim>\<open>overrides\<close>; optional fields are options. The broadcast body has no \<^verbatim>\<open>to\<close>.
\<close>

record 'p TriggerEventRequestDto =
  body_name :: string
  body_payload :: 'p
  body_overrides :: "(string \<times> 'p) list option"
  body_to :: TriggerRecipientsPayload
  body_actor :: TriggerRecipient
  body_transactionId :: "string option"

record 'p TriggerEventToAllRequestDto =
  all_name :: string
  all_payload :: 'p
  all_overrides :: "(string \<times> 'p) list option"
  all_actor :: TriggerRecipient
  all_transactionId :: "string option"

record 'p TriggerEventCommand =
  tec_userId :: string
  tec_environmentId :: string
  tec_organizationId :: string
  tec_identifier :: string
  tec_payload :: 'p
  tec_overrides :: "(string \<times> 'p) list"
  tec_to :: "ISubscribersDefine list"
  tec_actor :: ISubscribersDefine
  tec_transactionId :: string

record 'p TriggerEventToAllCommand =
  tea_userId :: string
  tea_environmentId :: string
  tea_organizationId :: string
  tea_identifier :: string
  tea_payload :: 'p
  tea_transactionId :: string
  tea_overrides :: "(string \<times> 'p) list"
  tea_actor :: ISubscribersDefine

record TriggerEventResponseDto =
  acknowledged :: bool
  status :: string
  res_transactionId :: string

text \<open>
  The record of calls: one entry for every call a handler or use case makes, to a
  collaborator or to one of its own methods, in the order the calls are made.
\<close>

datatype 'p call =
    Call_uuidv4 string
  | Call_validateTransactionIdProperty string string string
  | Call_aggregateSubscribers
  | Call_mapSubscribers
  | Call_mapActor
  | Call_triggerEvent_execute "'p TriggerEventCommand"
  | Call_triggerEventToAll_execute "'p TriggerEventToAllCommand"
  | Call_getTopicSubscribers_execute GetTopicSubscribersCommand
  | Call_createLog_execute CreateLogCommand
  | Call_console_error error

text \<open>
  The collaborators of \<^verbatim>\<open>MapTriggerRecipients\<close> (constructor, line 251). Each one is a
  function on a state of its own (\<open>'r\<close> for the topic store, \<open>'l\<close> for the log sink), so
  that a collaborator may answer the same command differently from one call to the next.
\<close>

record ('r, 'l) MapTriggerRecipients =
  createLog :: "CreateLogCommand \<Rightarrow> 'l \<Rightarrow> promise \<times> 'l"
  getTopicSubscribers ::
    "GetTopicSubscribersCommand \<Rightarrow> 'r \<Rightarrow> (error + TopicSubscribersResponse) \<times> 'r"

text \<open>
  \<open>calls\<close> holds the calls the use case makes itself, in order. A \<^verbatim>\<open>.catch\<close> handler
  does not run where it is attached: it runs in a later microtask, once the promise is
  rejected. What such handlers will do is kept apart in \<open>later\<close>, in the order the
  handlers were attached; the model does not say when they run.
\<close>

record ('r, 'l, 'p) world =
  topicStore :: 'r
  logSink :: 'l
  calls :: "'p call list"
  later :: "'p call list"

section \<open>MapTriggerRecipients\<close>

text \<open>\<^verbatim>\<open>mapSubscriber\<close> (lines 308-314; the controller's copy is lines 207-213).\<close>

definition mapSubscriber :: "TriggerRecipient \<Rightarrow> ISubscribersDefine" where
  "mapSubscriber subscriber =
     (case subscriber of Str s \<Rightarrow> subscriberId_only s | _ \<Rightarrow> subscriber)"

text \<open>\<^verbatim>\<open>isNotTopic\<close> and \<^verbatim>\<open>findSubscribers\<close> (lines 316-321).\<close>

definition isNotTopic :: "TriggerRecipientsTypeEnum \<Rightarrow> TriggerRecipient \<Rightarrow> bool" where
  "isNotTopic E recipient =
     ((case recipient of Str _ \<Rightarrow> True | _ \<Rightarrow> False) \<or> type_of recipient \<noteq> Some (TOPIC E))"

definition findSubscribers ::
  "TriggerRecipientsTypeEnum \<Rightarrow> TriggerRecipient list \<Rightarrow> ISubscribersDefine list" where
  "findSubscribers E recipients = map mapSubscriber (filter (isNotTopic E) recipients)"

text \<open>\<^verbatim>\<open>isTopic\<close> and \<^verbatim>\<open>findTopics\<close> (lines 323-327).\<close>

definition isTopic :: "TriggerRecipientsTypeEnum \<Rightarrow> TriggerRecipient \<Rightarrow> bool" where
  "isTopic E recipient = (type_of recipient = Some (TOPIC E))"

definition findTopics ::
  "TriggerRecipientsTypeEnum \<Rightarrow> TriggerRecipient list \<Rightarrow> TriggerRecipient list" where
  "findTopics E recipients = filter (isTopic E) recipients"

text \<open>
  \<^verbatim>\<open>logTopicSubscribersError\<close> (lines 329-353), for a log call that returns its promise.
  The promise is neither awaited nor returned. \<open>settled\<close> is how it ends; when it is
  rejected, the \<^verbatim>\<open>.catch\<close> handler will write the error to the console.
\<close>

definition logTopicSubscribersError ::
  "('r, 'l) MapTriggerRecipients \<Rightarrow> ILogTopicSubscribersPayload \<Rightarrow> ('r, 'l, 'p) world
     \<Rightarrow> (error + unit) \<times> ('r, 'l, 'p) world" where
  "logTopicSubscribersError M p w =
     (let command =
            \<lparr>log_transactionId = ilp_transactionId p,
             log_status = LogStatus_ERROR,
             log_environmentId = ilp_environmentId p,
             log_organizationId = ilp_organizationId p,
             log_text = ''Failed retrieving topic subscribers'',
             log_userId = ilp_userId p,
             log_code = TOPIC_SUBSCRIBERS_ERROR,
             log_raw_topicId = ilp_topicId p\<rparr>;
          (settled, l') = createLog M command (logSink w);
          w' = w\<lparr>logSink := l', calls := calls w @ [Call_createLog_execute command]\<rparr>
      in case settled of
           Fulfilled \<Rightarrow> (Inr (), w')
         | Rejected e \<Rightarrow> (Inr (), w'\<lparr>later := later w' @ [Call_console_error e]\<rparr>))"

text \<open>\<^verbatim>\<open>subscribers.forEach((subscriber) => topicSubscribers.push(...))\<close> (line 293).\<close>

fun forEach_push :: "string list \<Rightarrow> ISubscribersDefine list \<Rightarrow> ISubscribersDefine list" where
  "forEach_push [] topicSubscribers = topicSubscribers"
| "forEach_push (subscriber # rest) topicSubscribers =
     forEach_push rest (topicSubscribers @ [subscriberId_only subscriber])"

text \<open>The \<^verbatim>\<open>try\<close> block of the loop body (lines 283-294), with the array it pushes to.\<close>

definition try_getTopicSubscribers ::
  "('r, 'l) MapTriggerRecipients \<Rightarrow> string \<Rightarrow> string \<Rightarrow> string \<Rightarrow> TriggerRecipient
     \<Rightarrow> ISubscribersDefine list \<Rightarrow> ('r, 'l, 'p) world
     \<Rightarrow> (error + unit) \<times> ISubscribersDefine list \<times> ('r, 'l, 'p) world" where
  "try_getTopicSubscribers M environmentId organizationId userId topic topicSubscribers w =
     (let getTopicSubscribersCommand =
            \<lparr>gts_environmentId = environmentId,
             gts_topicId = topicId_or_empty topic,
             gts_organizationId = organizationId,
             gts_userId = userId\<rparr>;
          (response, r') = getTopicSubscribers M getTopicSubscribersCommand (topicStore w);
          w' = w\<lparr>topicStore := r',
                 calls := calls w @ [Call_getTopicSubscribers_execute getTopicSubscribersCommand]\<rparr>
      in case response of
           Inl e \<Rightarrow> (Inl e, topicSubscribers, w')
         | Inr res \<Rightarrow> (Inr (), forEach_push (response_subscribers res) topicSubscribers, w'))"

text \<open>The \<^verbatim>\<open>for (const topic of topics)\<close> loop with its \<^verbatim>\<open>try\<close>/\<^verbatim>\<open>catch\<close> (lines 282-303).\<close>

fun for_topics ::
  "('r, 'l) MapTriggerRecipients \<Rightarrow> string \<Rightarrow> string \<Rightarrow> string \<Rightarrow> string
     \<Rightarrow> TriggerRecipient list \<Rightarrow> ISubscribersDefine list \<Rightarrow> ('r, 'l, 'p) world
     \<Rightarrow> (error + ISubscribersDefine list) \<times> ('r, 'l, 'p) world" where
  "for_topics M transactionId environmentId organizationId userId [] topicSubscribers w =
     (Inr topicSubscribers, w)"
| "for_topics M transactionId environmentId organizationId userId (topic # topics) topicSubscribers w =
     (case try_getTopicSubscribers M environmentId organizationId userId topic topicSubscribers w of
        (Inr _, topicSubscribers', w') \<Rightarrow>
          for_topics M transactionId environmentId organizationId userId topics topicSubscribers' w'
      | (Inl _, topicSubscribers', w') \<Rightarrow>
          (case logTopicSubscribersError M
                  \<lparr>ilp_environmentId = environmentId,
                   ilp_organizationId = organizationId,
                   ilp_topicId = topicId_or_empty topic,
                   ilp_transactionId = transactionId,
                   ilp_userId = userId\<rparr> w' of
             (Inl e, w'') \<Rightarrow> (Inl e, w'')
           | (Inr _, w'') \<Rightarrow>
               for_topics M transactionId environmentId organizationId userId topics
                 topicSubscribers' w''))"

text \<open>\<^verbatim>\<open>getSubscribersFromAllTopics\<close> (lines 271-306).\<close>

definition getSubscribersFromAllTopics ::
  "('r, 'l) MapTriggerRecipients \<Rightarrow> TriggerRecipientsTypeEnum \<Rightarrow> string \<Rightarrow> string \<Rightarrow> string
     \<Rightarrow> string \<Rightarrow> TriggerRecipient list \<Rightarrow> ('r, 'l, 'p) world
     \<Rightarrow> (error + ISubscribersDefine list) \<times> ('r, 'l, 'p) world" where
  "getSubscribersFromAllTopics M E transactionId environmentId organizationId userId recipients w =
     (let topics = findTopics E recipients
      in for_topics M transactionId environmentId organizationId userId topics [] w)"

text \<open>\<^verbatim>\<open>Array.isArray(x) ? x : [x]\<close> (lines 186 and 256).\<close>

definition as_array :: "TriggerRecipientsPayload \<Rightarrow> TriggerRecipient list" where
  "as_array recipients = (case recipients of Many rs \<Rightarrow> rs | Single r \<Rightarrow> [r])"

text \<open>\<^verbatim>\<open>MapTriggerRecipients.execute\<close> (lines 253-269).\<close>

definition execute ::
  "('r, 'l) MapTriggerRecipients \<Rightarrow> TriggerRecipientsTypeEnum \<Rightarrow> MapTriggerRecipientsCommand
     \<Rightarrow> ('r, 'l, 'p) world \<Rightarrow> (error + ISubscribersDefine list) \<times> ('r, 'l, 'p) world" where
  "execute M E command w =
     (let mappedRecipients = as_array (mtr_recipients command);
          simpleSubscribers = findSubscribers E mappedRecipients
      in case getSubscribersFromAllTopics M E (mtr_transactionId command)
                (mtr_environmentId command) (mtr_organizationId command) (mtr_userId command)
                mappedRecipients w of
           (Inl e, w') \<Rightarrow> (Inl e, w')
         | (Inr topicSubscribers, w') \<Rightarrow> (Inr (simpleSubscribers @ topicSubscribers), w'))"

section \<open>MapTriggerRecipients when the log call throws\<close>






section \<open>EventsController\<close>

text \<open>
  The collaborators of the controller: \<^verbatim>\<open>uuidv4\<close> (line 12), the two methods of
  \<^verbatim>\<open>TriggerEvent\<close> it calls and \<^verbatim>\<open>TriggerEventToAll.execute\<close>, as functions on the
  state \<open>'w\<close> of the services behind them. \<^verbatim>\<open>validateTransactionIdProperty\<close> answers
  \<open>Some e\<close> when it throws \<open>e\<close>.
\<close>

record ('p, 'w) EventsController =
  uuidv4 :: "'w \<Rightarrow> string \<times> 'w"
  validateTransactionIdProperty :: "string \<Rightarrow> string \<Rightarrow> string \<Rightarrow> 'w \<Rightarrow> error option \<times> 'w"
  triggerEvent_execute ::
    "'p TriggerEventCommand \<Rightarrow> 'w \<Rightarrow> (error + TriggerEventResponseDto) \<times> 'w"
  triggerEventToAll_execute ::
    "'p TriggerEventToAllCommand \<Rightarrow> 'w \<Rightarrow> (error + TriggerEventResponseDto) \<times> 'w"

record ('w, 'p) request =
  services :: 'w
  invoked :: "'p call list"

text \<open>\<^verbatim>\<open>aggregateSubscribers\<close> (lines 185-195).\<close>

definition is_string :: "TriggerRecipient \<Rightarrow> bool" where
  "is_string element = (case element of Str _ \<Rightarrow> True | _ \<Rightarrow> False)"

definition aggregateSubscribers ::
  "TriggerRecipientsTypeEnum \<Rightarrow> 'p TriggerEventRequestDto \<Rightarrow> TriggerRecipient list" where
  "aggregateSubscribers E body =
     (let to = as_array (body_to body)
      in filter (\<lambda>element.
           if is_string element \<or> \<not> truthy (type_of element) then True
           else type_of element = Some (SUBSCRIBER E)) to)"

text \<open>\<^verbatim>\<open>mapSubscribers\<close> (lines 197-199).\<close>

definition mapSubscribers :: "TriggerRecipient list \<Rightarrow> ISubscribersDefine list" where
  "mapSubscribers subscribers = map mapSubscriber subscribers"

text \<open>
  \<^verbatim>\<open>mapActor\<close> (lines 201-205). \<^verbatim>\<open>!actor\<close> holds of \<^verbatim>\<open>undefined\<close>, \<^verbatim>\<open>null\<close> and the
  empty string; the bare \<^verbatim>\<open>return\<close> yields \<^verbatim>\<open>undefined\<close>.
\<close>

definition falsy :: "TriggerRecipient \<Rightarrow> bool" where
  "falsy v = (case v of Undefined \<Rightarrow> True | Null \<Rightarrow> True | Str s \<Rightarrow> s = [] | Obj _ \<Rightarrow> False)"

definition mapActor :: "TriggerRecipient \<Rightarrow> ISubscribersDefine" where
  "mapActor a = (if falsy a then Undefined else mapSubscriber a)"

text \<open>\<^verbatim>\<open>body.overrides || {}\<close> (lines 87 and 133).\<close>

definition overrides_or_empty :: "(string \<times> 'p) list option \<Rightarrow> (string \<times> 'p) list" where
  "overrides_or_empty ov = (case ov of None \<Rightarrow> [] | Some kvs \<Rightarrow> kvs)"

text \<open>\<^verbatim>\<open>trackEvent\<close> (lines 65-95).\<close>

definition trackEvent ::
  "TriggerRecipientsTypeEnum \<Rightarrow> ('p, 'w) EventsController \<Rightarrow> IJwtPayload
     \<Rightarrow> 'p TriggerEventRequestDto \<Rightarrow> ('w, 'p) request
     \<Rightarrow> (error + TriggerEventResponseDto) \<times> ('w, 'p) request" where
  "trackEvent E C user body q =
     (let (transactionId, q0) =
            (if truthy (body_transactionId body) then (the (body_transactionId body), q)
             else (let (fresh, x) = uuidv4 C (services q)
                   in (fresh, q\<lparr>services := x, invoked := invoked q @ [Call_uuidv4 fresh]\<rparr>)));
          userId = jwt_id user;
          environmentId = jwt_environmentId user;
          organizationId = jwt_organizationId user;
          (thrown, x1) =
            validateTransactionIdProperty C transactionId organizationId environmentId (services q0);
          q1 = q0\<lparr>services := x1,
                  invoked := invoked q0 @
                    [Call_validateTransactionIdProperty transactionId organizationId environmentId]\<rparr>
      in case thrown of
           Some e \<Rightarrow> (Inl e, q1)
         | None \<Rightarrow>
             (let subscribers = aggregateSubscribers E body;
                  q2 = q1\<lparr>invoked := invoked q1 @ [Call_aggregateSubscribers]\<rparr>;
                  mappedSubscribers = mapSubscribers subscribers;
                  q3 = q2\<lparr>invoked := invoked q2 @ [Call_mapSubscribers]\<rparr>;
                  mappedActor = mapActor (body_actor body);
                  q4 = q3\<lparr>invoked := invoked q3 @ [Call_mapActor]\<rparr>;
                  command =
                    \<lparr>tec_userId = userId,
                     tec_environmentId = environmentId,
                     tec_organizationId = organizationId,
                     tec_identifier = body_name body,
                     tec_payload = body_payload body,
                     tec_overrides = overrides_or_empty (body_overrides body),
                     tec_to = mappedSubscribers,
                     tec_actor = mappedActor,
                     tec_transactionId = transactionId\<rparr>;
                  (result, x5) = triggerEvent_execute C command (services q4)
              in (result,
                  q4\<lparr>services := x5,
                     invoked := invoked q4 @ [Call_triggerEvent_execute command]\<rparr>)))"

text \<open>\<^verbatim>\<open>trackEventToAll\<close> (lines 117-137).\<close>

definition trackEventToAll ::
  "('p, 'w) EventsController \<Rightarrow> IJwtPayload \<Rightarrow> 'p TriggerEventToAllRequestDto
     \<Rightarrow> ('w, 'p) request \<Rightarrow> (error + TriggerEventResponseDto) \<times> ('w, 'p) request" where
  "trackEventToAll C user body q =
     (let (transactionId, q0) =
            (if truthy (all_transactionId body) then (the (all_transactionId body), q)
             else (let (fresh, x) = uuidv4 C (services q)
                   in (fresh, q\<lparr>services := x, invoked := invoked q @ [Call_uuidv4 fresh]\<rparr>)));
          (thrown, x1) =
            validateTransactionIdProperty C transactionId (jwt_organizationId user)
              (jwt_environmentId user) (services q0);
          q1 = q0\<lparr>services := x1,
                  invoked := invoked q0 @
                    [Call_validateTransactionIdProperty transactionId (jwt_organizationId user)
                       (jwt_environmentId user)]\<rparr>
      in case thrown of
           Some e \<Rightarrow> (Inl e, q1)
         | None \<Rightarrow>
             (let mappedActor = mapActor (all_actor body);
                  q2 = q1\<lparr>invoked := invoked q1 @ [Call_mapActor]\<rparr>;
                  command =
                    \<lparr>tea_userId = jwt_id user,
                     tea_environmentId = jwt_environmentId user,
                     tea_organizationId = jwt_organizationId user,
                     tea_identifier = all_name body,
                     tea_payload = all_payload body,
                     tea_transactionId = transactionId,
                     tea_overrides = overrides_or_empty (all_overrides body),
                     tea_actor = mappedActor\<rparr>;
                  (result, x3) = triggerEventToAll_execute C command (services q2)
              in (result,
                  q2\<lparr>services := x3,
                     invoked := invoked q2 @ [Call_triggerEventToAll_execute command]\<rparr>)))"

section \<open>Notions used to state the properties\<close>

text \<open>The command the loop builds for a topic, and the log command of a failed lookup.\<close>

definition command_for ::
  "string \<Rightarrow> string \<Rightarrow> string \<Rightarrow> TriggerRecipient \<Rightarrow> GetTopicSubscribersCommand" where
  "command_for environmentId organizationId userId topic =
     \<lparr>gts_environmentId = environmentId,
      gts_topicId = topicId_or_empty topic,
      gts_organizationId = organizationId,
      gts_userId = userId\<rparr>"

definition failure_log ::
  "string \<Rightarrow> string \<Rightarrow> string \<Rightarrow> string \<Rightarrow> TriggerRecipient \<Rightarrow> CreateLogCommand" where
  "failure_log transactionId environmentId organizationId userId topic =
     \<lparr>log_transactionId = transactionId,
      log_status = LogStatus_ERROR,
      log_environmentId = environmentId,
      log_organizationId = organizationId,
      log_text = ''Failed retrieving topic subscribers'',
      log_userId = userId,
      log_code = TOPIC_SUBSCRIBERS_ERROR,
      log_raw_topicId = topicId_or_empty topic\<rparr>"

text \<open>
  The answers of the topic resolver when it is asked about the given topics one after the
  other, starting from the store \<open>r\<close>.
\<close>

fun resolver_answers ::
  "('r, 'l) MapTriggerRecipients \<Rightarrow> string \<Rightarrow> string \<Rightarrow> string \<Rightarrow> TriggerRecipient list \<Rightarrow> 'r
     \<Rightarrow> (error + TopicSubscribersResponse) list" where
  "resolver_answers M environmentId organizationId userId [] r = []"
| "resolver_answers M environmentId organizationId userId (topic # topics) r =
     (let (answer, r') = getTopicSubscribers M (command_for environmentId organizationId userId topic) r
      in answer # resolver_answers M environmentId organizationId userId topics r')"

text \<open>
  What one topic adds to the result according to the specification: one
  \<^verbatim>\<open>{subscriberId}\<close> entry per member, in the order of the answer, and nothing when the
  lookup failed.
\<close>

definition contribution :: "error + TopicSubscribersResponse \<Rightarrow> ISubscribersDefine list" where
  "contribution answer =
     (case answer of
        Inl _ \<Rightarrow> []
      | Inr res \<Rightarrow> map subscriberId_only (response_subscribers res))"

text \<open>The classifier of the specification: Topic exactly when the discriminator is the topic marker.\<close>

datatype classification = Direct | Topic

definition classify :: "TriggerRecipientsTypeEnum \<Rightarrow> TriggerRecipient \<Rightarrow> classification" where
  "classify E expr = (if type_of expr = Some (TOPIC E) then Topic else Direct)"

definition directs :: "TriggerRecipientsTypeEnum \<Rightarrow> TriggerRecipient list \<Rightarrow> TriggerRecipient list" where
  "directs E recipients = filter (\<lambda>expr. classify E expr = Direct) recipients"

definition topics_of :: "TriggerRecipientsTypeEnum \<Rightarrow> TriggerRecipient list \<Rightarrow> TriggerRecipient list" where
  "topics_of E recipients = filter (\<lambda>expr. classify E expr = Topic) recipients"

text \<open>The entries of a record of calls that are calls of the topic resolver.\<close>

fun is_resolver_call :: "'p call \<Rightarrow> bool" where
  "is_resolver_call (Call_getTopicSubscribers_execute _) = True"
| "is_resolver_call _ = False"

text \<open>
  The transaction id of a request: the supplied value when it is a string that is not
  empty, and a freshly generated one when no value or the empty string is supplied. \<open>x\<close>
  is the state of the services when the request arrives.
\<close>

definition transactionId_for :: "('p, 'w) EventsController \<Rightarrow> string option \<Rightarrow> 'w \<Rightarrow> string" where
  "transactionId_for C supplied x =
     (case supplied of
        None \<Rightarrow> fst (uuidv4 C x)
      | Some t \<Rightarrow> (if t = [] then fst (uuidv4 C x) else t))"

definition services_at_validation :: "('p, 'w) EventsController \<Rightarrow> string option \<Rightarrow> 'w \<Rightarrow> 'w" where
  "services_at_validation C supplied x =
     (case supplied of
        None \<Rightarrow> snd (uuidv4 C x)
      | Some t \<Rightarrow> (if t = [] then snd (uuidv4 C x) else x))"

text \<open>The answer of the idempotency collaborator for the request's transaction id.\<close>

definition validation ::
  "('p, 'w) EventsController \<Rightarrow> IJwtPayload \<Rightarrow> string option \<Rightarrow> 'w \<Rightarrow> error option \<times> 'w" where
  "validation C user supplied x =
     validateTransactionIdProperty C (transactionId_for C supplied x) (jwt_organizationId user)
       (jwt_environmentId user) (services_at_validation C supplied x)"

text \<open>The calls of transaction handling: the generation, if any, and then the validation.\<close>

definition transaction_calls ::
  "('p, 'w) EventsController \<Rightarrow> IJwtPayload \<Rightarrow> string option \<Rightarrow> 'w \<Rightarrow> 'p call list" where
  "transaction_calls C user supplied x =
     (case supplied of
        None \<Rightarrow> [Call_uuidv4 (fst (uuidv4 C x))]
      | Some t \<Rightarrow> (if t = [] then [Call_uuidv4 (fst (uuidv4 C x))] else [])) @
     [Call_validateTransactionIdProperty (transactionId_for C supplied x)
        (jwt_organizationId user) (jwt_environmentId user)]"

text \<open>The commands the two handlers assemble (lines 81-91 and 126-135).\<close>

definition trigger_command ::
  "TriggerRecipientsTypeEnum \<Rightarrow> IJwtPayload \<Rightarrow> 'p TriggerEventRequestDto \<Rightarrow> string
     \<Rightarrow> 'p TriggerEventCommand" where
  "trigger_command E user body tid =
     \<lparr>tec_userId = jwt_id user,
      tec_environmentId = jwt_environmentId user,
      tec_organizationId = jwt_organizationId user,
      tec_identifier = body_name body,
      tec_payload = body_payload body,
      tec_overrides = overrides_or_empty (body_overrides body),
      tec_to = mapSubscribers (aggregateSubscribers E body),
      tec_actor = mapActor (body_actor body),
      tec_transactionId = tid\<rparr>"

definition broadcast_command ::
  "IJwtPayload \<Rightarrow> 'p TriggerEventToAllRequestDto \<Rightarrow> string \<Rightarrow> 'p TriggerEventToAllCommand" where
  "broadcast_command user body tid =
     \<lparr>tea_userId = jwt_id user,
      tea_environmentId = jwt_environmentId user,
      tea_organizationId = jwt_organizationId user,
      tea_identifier = all_name body,
      tea_payload = all_payload body,
      tea_transactionId = tid,
      tea_overrides = overrides_or_empty (all_overrides body),
      tea_actor = mapActor (all_actor body)\<rparr>"

text \<open>
  The id a topic reference carries, and the empty string for a reference that carries
  none.
\<close>

definition reference_id :: "TriggerRecipient \<Rightarrow> string" where
  "reference_id topic =
     (case topic of
        Obj ob \<Rightarrow> (case topicId ob of None \<Rightarrow> [] | Some t \<Rightarrow> t)
      | _ \<Rightarrow> [])"

text \<open>
  The lookup of a topic and the record of its failure, as the specification has them: the
  lookup names the reference's id and the tenant; the failure record names the reference's
  id, the transaction and the tenant.
\<close>

definition lookup ::
  "string \<Rightarrow> string \<Rightarrow> string \<Rightarrow> TriggerRecipient \<Rightarrow> GetTopicSubscribersCommand" where
  "lookup environmentId organizationId userId topic =
     \<lparr>gts_environmentId = environmentId,
      gts_topicId = reference_id topic,
      gts_organizationId = organizationId,
      gts_userId = userId\<rparr>"

definition resolution_failure ::
  "string \<Rightarrow> string \<Rightarrow> string \<Rightarrow> string \<Rightarrow> TriggerRecipient \<Rightarrow> CreateLogCommand" where
  "resolution_failure transactionId environmentId organizationId userId topic =
     \<lparr>log_transactionId = transactionId,
      log_status = LogStatus_ERROR,
      log_environmentId = environmentId,
      log_organizationId = organizationId,
      log_text = ''Failed retrieving topic subscribers'',
      log_userId = userId,
      log_code = TOPIC_SUBSCRIBERS_ERROR,
      log_raw_topicId = reference_id topic\<rparr>"


section \<open>Concrete requests and collaborators\<close>

text \<open>
  The values of the enumeration in the \<^verbatim>\<open>@novu/shared\<close> package, a topic store that
  knows the topics \<^verbatim>\<open>A\<close> (two members) and \<^verbatim>\<open>C\<close> (one member) and fails on every
  other id, a log sink that rejects every write and one that accepts every write.
\<close>

definition enum_values :: TriggerRecipientsTypeEnum where
  "enum_values = \<lparr>SUBSCRIBER = ''Subscriber'', TOPIC = ''Topic''\<rparr>"

definition topic_ref :: "string \<Rightarrow> TriggerRecipient" where
  "topic_ref t = Obj \<lparr>type = Some ''Topic'', subscriberId = None, topicId = Some t, profile = []\<rparr>"

definition subscriber_u2 :: TriggerRecipient where
  "subscriber_u2 =
     Obj \<lparr>type = None, subscriberId = Some ''u2'', topicId = None,
          profile = [(''email'', ''u2@example.org'')]\<rparr>"

definition group_entry :: TriggerRecipient where
  "group_entry =
     Obj \<lparr>type = Some ''Group'', subscriberId = Some ''u3'', topicId = None, profile = []\<rparr>"


definition topic_store ::
  "GetTopicSubscribersCommand \<Rightarrow> unit \<Rightarrow> (error + TopicSubscribersResponse) \<times> unit" where
  "topic_store command r =
     (if gts_topicId command = ''A'' then (Inr \<lparr>response_subscribers = [''a1'', ''a2'']\<rparr>, r)
      else if gts_topicId command = ''C'' then (Inr \<lparr>response_subscribers = [''c1'']\<rparr>, r)
      else (Inl (Error ''topic not found''), r))"

definition rejecting_sink :: "CreateLogCommand \<Rightarrow> unit \<Rightarrow> promise \<times> unit" where
  "rejecting_sink command l = (Rejected (Error ''log store unavailable''), l)"

definition accepting_sink :: "CreateLogCommand \<Rightarrow> unit \<Rightarrow> promise \<times> unit" where
  "accepting_sink command l = (Fulfilled, l)"

definition usecase_rejecting_sink :: "(unit, unit) MapTriggerRecipients" where
  "usecase_rejecting_sink = \<lparr>createLog = rejecting_sink, getTopicSubscribers = topic_store\<rparr>"

definition usecase_accepting_sink :: "(unit, unit) MapTriggerRecipients" where
  "usecase_accepting_sink = \<lparr>createLog = accepting_sink, getTopicSubscribers = topic_store\<rparr>"




definition quiet :: "(unit, unit, unit) world" where
  "quiet = \<lparr>topicStore = (), logSink = (), calls = [], later = []\<rparr>"

definition mixed_command :: MapTriggerRecipientsCommand where
  "mixed_command =
     \<lparr>mtr_environmentId = ''env'',
      mtr_organizationId = ''org'',
      mtr_recipients =
        Many [Str ''u1'', topic_ref ''A'', subscriber_u2, topic_ref ''B'', group_entry,
              topic_ref ''C''],
      mtr_transactionId = ''tx'',
      mtr_userId = ''usr''\<rparr>"

text \<open>
  A controller whose services generate one fixed identifier, refuse the transaction id
  \<^verbatim>\<open>used\<close> and acknowledge every command.
\<close>

definition acknowledging :: "(unit, unit) EventsController" where
  "acknowledging =
     \<lparr>uuidv4 = (\<lambda>x. (''d2239acb-e879-4bdb-ab6f-365b43278d8f'', x)),
      validateTransactionIdProperty =
        (\<lambda>t organizationId environmentId x.
           (if t = ''used'' then Some (Error ''transactionId is not unique'') else None, x)),
      triggerEvent_execute =
        (\<lambda>command x.
           (Inr \<lparr>acknowledged = True, status = ''processed'',
                 res_transactionId = tec_transactionId command\<rparr>, x)),
      triggerEventToAll_execute =
        (\<lambda>command x.
           (Inr \<lparr>acknowledged = True, status = ''processed'',
                 res_transactionId = tea_transactionId command\<rparr>, x))\<rparr>"

definition session_user :: IJwtPayload where
  "session_user = \<lparr>jwt_id = ''usr'', jwt_environmentId = ''env'', jwt_organizationId = ''org''\<rparr>"

definition idle :: "(unit, unit) request" where
  "idle = \<lparr>services = (), invoked = []\<rparr>"

definition request_to :: "TriggerRecipientsPayload \<Rightarrow> TriggerRecipient \<Rightarrow> string option
     \<Rightarrow> unit TriggerEventRequestDto" where
  "request_to recipients a t =
     \<lparr>body_name = ''welcome'', body_payload = (), body_overrides = None,
      body_to = recipients, body_actor = a, body_transactionId = t\<rparr>"

definition broadcast_request :: "TriggerRecipient \<Rightarrow> string option
     \<Rightarrow> unit TriggerEventToAllRequestDto" where
  "broadcast_request a t =
     \<lparr>all_name = ''welcome'', all_payload = (), all_overrides = None,
      all_actor = a, all_transactionId = t\<rparr>"

section \<open>The topic loop, step by step\<close>

lemma forEach_push_append: "forEach_push ids acc = acc @ map subscriberId_only ids"
  by (induction ids arbitrary: acc) auto

lemma isNotTopic_classify: "isNotTopic E r = (classify E r = Direct)"
  by (cases r) (auto simp: isNotTopic_def classify_def type_of_def)

lemma isTopic_classify: "isTopic E r = (classify E r = Topic)"
  by (auto simp: isTopic_def classify_def)

lemma for_topics_Cons_ok:
  assumes "getTopicSubscribers M (command_for env org usr topic) (topicStore w) = (Inr res, r')"
  shows "for_topics M tx env org usr (topic # topics) acc w =
           for_topics M tx env org usr topics (acc @ map subscriberId_only (response_subscribers res))
             (w\<lparr>topicStore := r',
                calls := calls w @ [Call_getTopicSubscribers_execute (command_for env org usr topic)]\<rparr>)"
  using assms
  by (simp add: try_getTopicSubscribers_def command_for_def Let_def forEach_push_append)

lemma for_topics_Cons_fail:
  assumes "getTopicSubscribers M (command_for env org usr topic) (topicStore w) = (Inl e, r')"
      and "createLog M (failure_log tx env org usr topic) (logSink w) = (settled, l')"
  shows "for_topics M tx env org usr (topic # topics) acc w =
           for_topics M tx env org usr topics acc
             (w\<lparr>topicStore := r', logSink := l',
                calls := calls w @
                  [Call_getTopicSubscribers_execute (command_for env org usr topic),
                   Call_createLog_execute (failure_log tx env org usr topic)],
                later := later w @
                  (case settled of Fulfilled \<Rightarrow> [] | Rejected x \<Rightarrow> [Call_console_error x])\<rparr>)"
  using assms
  by (cases settled)
     (simp_all add: try_getTopicSubscribers_def logTopicSubscribersError_def command_for_def
        failure_log_def Let_def)


declare for_topics.simps(2) [simp del]

lemma for_topics_result:
  "fst (for_topics M tx env org usr topics acc w) =
     Inr (acc @ concat (map contribution (resolver_answers M env org usr topics (topicStore w))))"
proof (induction topics arbitrary: acc w)
  case Nil
  show ?case by simp
next
  case (Cons topic topics)
  obtain answer r' where a:
    "getTopicSubscribers M (command_for env org usr topic) (topicStore w) = (answer, r')"
    by (cases "getTopicSubscribers M (command_for env org usr topic) (topicStore w)")
  obtain settled l' where l:
    "createLog M (failure_log tx env org usr topic) (logSink w) = (settled, l')"
    by (cases "createLog M (failure_log tx env org usr topic) (logSink w)")
  show ?case
  proof (cases answer)
    case (Inl e)
    with a l show ?thesis
      using for_topics_Cons_fail [of M env org usr topic w e r' tx settled l' topics acc]
      by (simp add: Cons.IH contribution_def)
  next
    case (Inr res)
    with a show ?thesis
      using for_topics_Cons_ok [of M env org usr topic w res r' tx topics acc]
      by (simp add: Cons.IH contribution_def)
  qed
qed

lemma directs_filter: "filter (isNotTopic E) rs = directs E rs"
proof -
  have "isNotTopic E = (\<lambda>expr. classify E expr = Direct)"
    by (rule ext) (simp add: isNotTopic_classify)
  then show ?thesis by (simp add: directs_def)
qed

lemma topics_filter: "findTopics E rs = topics_of E rs"
proof -
  have "isTopic E = (\<lambda>expr. classify E expr = Topic)"
    by (rule ext) (simp add: isTopic_classify)
  then show ?thesis by (simp add: findTopics_def topics_of_def)
qed

lemma for_topics_resolver_calls:
  "filter is_resolver_call (calls (snd (for_topics M tx env org usr topics acc w))) =
     filter is_resolver_call (calls w) @
     map (\<lambda>topic. Call_getTopicSubscribers_execute (command_for env org usr topic)) topics"
proof (induction topics arbitrary: acc w)
  case Nil
  show ?case by simp
next
  case (Cons topic topics)
  obtain answer r' where a:
    "getTopicSubscribers M (command_for env org usr topic) (topicStore w) = (answer, r')"
    by (cases "getTopicSubscribers M (command_for env org usr topic) (topicStore w)")
  obtain settled l' where l:
    "createLog M (failure_log tx env org usr topic) (logSink w) = (settled, l')"
    by (cases "createLog M (failure_log tx env org usr topic) (logSink w)")
  show ?case
  proof (cases answer)
    case (Inl e)
    with a l show ?thesis
      using for_topics_Cons_fail [of M env org usr topic w e r' tx settled l' topics acc]
      by (cases settled) (simp_all add: Cons.IH)
  next
    case (Inr res)
    with a show ?thesis
      using for_topics_Cons_ok [of M env org usr topic w res r' tx topics acc]
      by (simp add: Cons.IH)
  qed
qed


section \<open>The topic loop when the log call throws\<close>

lemma topicId_or_empty_reference_id: "topicId_or_empty topic = reference_id topic"
  by (cases topic) (auto simp: topicId_or_empty_def reference_id_def truthy_def split: option.splits)

lemma command_for_lookup: "command_for env org usr topic = lookup env org usr topic"
  by (simp add: command_for_def lookup_def topicId_or_empty_reference_id)

lemma failure_log_resolution_failure:
  "failure_log tx env org usr topic = resolution_failure tx env org usr topic"
  by (simp add: failure_log_def resolution_failure_def topicId_or_empty_reference_id)













section \<open>The two handlers, case by case\<close>

lemma trackEvent_thrown:
  assumes "fst (validation C user (body_transactionId body) (services q)) = Some e"
  shows "trackEvent E C user body q =
           (Inl e,
            q\<lparr>services := snd (validation C user (body_transactionId body) (services q)),
              invoked := invoked q @ transaction_calls C user (body_transactionId body) (services q)\<rparr>)"
  using assms
  by (auto simp: trackEvent_def validation_def transactionId_for_def services_at_validation_def
        transaction_calls_def truthy_def Let_def split: prod.splits option.splits if_splits)

lemma trackEvent_passed:
  assumes "fst (validation C user (body_transactionId body) (services q)) = None"
  shows "trackEvent E C user body q =
           (let command = trigger_command E user body
                            (transactionId_for C (body_transactionId body) (services q));
                answer = triggerEvent_execute C command
                           (snd (validation C user (body_transactionId body) (services q)))
            in (fst answer,
                q\<lparr>services := snd answer,
                  invoked := invoked q @
                    transaction_calls C user (body_transactionId body) (services q) @
                    [Call_aggregateSubscribers, Call_mapSubscribers, Call_mapActor,
                     Call_triggerEvent_execute command]\<rparr>))"
  using assms
  by (auto simp: trackEvent_def validation_def transactionId_for_def services_at_validation_def
        transaction_calls_def trigger_command_def truthy_def Let_def
        split: prod.splits option.splits if_splits)

lemma trackEventToAll_thrown:
  assumes "fst (validation C user (all_transactionId body) (services q)) = Some e"
  shows "trackEventToAll C user body q =
           (Inl e,
            q\<lparr>services := snd (validation C user (all_transactionId body) (services q)),
              invoked := invoked q @ transaction_calls C user (all_transactionId body) (services q)\<rparr>)"
  using assms
  by (auto simp: trackEventToAll_def validation_def transactionId_for_def services_at_validation_def
        transaction_calls_def truthy_def Let_def split: prod.splits option.splits if_splits)

lemma trackEventToAll_passed:
  assumes "fst (validation C user (all_transactionId body) (services q)) = None"
  shows "trackEventToAll C user body q =
           (let command = broadcast_command user body
                            (transactionId_for C (all_transactionId body) (services q));
                answer = triggerEventToAll_execute C command
                           (snd (validation C user (all_transactionId body) (services q)))
            in (fst answer,
                q\<lparr>services := snd answer,
                  invoked := invoked q @
                    transaction_calls C user (all_transactionId body) (services q) @
                    [Call_mapActor, Call_triggerEventToAll_execute command]\<rparr>))"
  using assms
  by (auto simp: trackEventToAll_def validation_def transactionId_for_def services_at_validation_def
        transaction_calls_def broadcast_command_def truthy_def Let_def
        split: prod.splits option.splits if_splits)

section \<open>Unfolding the concrete values\<close>

lemmas example_defs = mixed_command_def quiet_def enum_values_def topic_ref_def subscriber_u2_def
  group_entry_def usecase_rejecting_sink_def usecase_accepting_sink_def topic_store_def
  rejecting_sink_def accepting_sink_def subscriberId_only_def

lemmas classifier_defs = directs_def topics_of_def classify_def type_of_def as_array_def
  mapSubscriber_def contribution_def command_for_def failure_log_def topicId_or_empty_def
  truthy_def isTopic_def

lemmas controller_defs = acknowledging_def session_user_def idle_def request_to_def
  broadcast_request_def

lemmas handling_defs = validation_def transactionId_for_def services_at_validation_def
  transaction_calls_def trigger_command_def broadcast_command_def aggregateSubscribers_def
  mapSubscribers_def mapActor_def falsy_def is_string_def overrides_or_empty_def


section \<open>The claims\<close>

text \<open>
  C3. For every recipient list, \<^verbatim>\<open>MapTriggerRecipients.execute\<close> returns the direct
  entries, each mapped by \<^verbatim>\<open>mapSubscriber\<close>, in their input order at the front, followed
  by what the topics contribute: the topics are looked up in their input order (the
  resolver calls in the record of calls are the topics' commands, in that order), and a
  topic whose lookup succeeds contributes one \<^verbatim>\<open>{subscriberId}\<close> entry per member, in the
  order of the answer.
\<close>

theorem execute_result:
  "fst (execute M E command w) =
     Inr (map mapSubscriber (directs E (as_array (mtr_recipients command))) @
          concat (map contribution
            (resolver_answers M (mtr_environmentId command) (mtr_organizationId command)
               (mtr_userId command) (topics_of E (as_array (mtr_recipients command)))
               (topicStore w))))
   \<and> filter is_resolver_call (calls (snd (execute M E command w))) =
       filter is_resolver_call (calls w) @
       map (\<lambda>topic. Call_getTopicSubscribers_execute
              (command_for (mtr_environmentId command) (mtr_organizationId command)
                 (mtr_userId command) topic))
         (topics_of E (as_array (mtr_recipients command)))"
proof -
  let ?rs = "as_array (mtr_recipients command)"
  let ?run = "for_topics M (mtr_transactionId command) (mtr_environmentId command)
                (mtr_organizationId command) (mtr_userId command) (topics_of E ?rs) [] w"
  have r: "fst ?run = Inr (concat (map contribution
            (resolver_answers M (mtr_environmentId command) (mtr_organizationId command)
               (mtr_userId command) (topics_of E ?rs) (topicStore w))))"
    using for_topics_result [of M "mtr_transactionId command" "mtr_environmentId command"
        "mtr_organizationId command" "mtr_userId command" "topics_of E ?rs" "[]" w] by simp
  have e: "execute M E command w =
             (case ?run of (Inl e, w') \<Rightarrow> (Inl e, w')
              | (Inr ts, w') \<Rightarrow> (Inr (map mapSubscriber (directs E ?rs) @ ts), w'))"
    by (simp add: execute_def getSubscribersFromAllTopics_def findSubscribers_def
          directs_filter topics_filter Let_def)
  show ?thesis
    using r for_topics_resolver_calls [of M "mtr_transactionId command"
        "mtr_environmentId command" "mtr_organizationId command" "mtr_userId command"
        "topics_of E ?rs" "[]" w]
    by (cases ?run) (simp add: e)
qed

theorem execute_result_witness:
  "fst (execute usecase_rejecting_sink enum_values mixed_command quiet) =
     Inr [subscriberId_only ''u1'', subscriber_u2, group_entry,
          subscriberId_only ''a1'', subscriberId_only ''a2'', subscriberId_only ''c1'']
   \<and> filter is_resolver_call (calls (snd (execute usecase_rejecting_sink enum_values mixed_command quiet))) =
       [Call_getTopicSubscribers_execute (command_for ''env'' ''org'' ''usr'' (topic_ref ''A'')),
        Call_getTopicSubscribers_execute (command_for ''env'' ''org'' ''usr'' (topic_ref ''B'')),
        Call_getTopicSubscribers_execute (command_for ''env'' ''org'' ''usr'' (topic_ref ''C''))]"
  using execute_result [of usecase_rejecting_sink enum_values mixed_command quiet]
  by (simp add: example_defs classifier_defs)

text \<open>
  C7. Whatever the topic resolver does, the list \<^verbatim>\<open>execute\<close> returns starts with the
  mapped direct entries, a prefix exactly as long as the number of direct entries, and the
  whole list is never shorter than that.
\<close>

theorem direct_prefix:
  "\<exists>result.
     fst (execute M E command w) = Inr result \<and>
     take (length (directs E (as_array (mtr_recipients command)))) result =
       map mapSubscriber (directs E (as_array (mtr_recipients command))) \<and>
     length (directs E (as_array (mtr_recipients command))) \<le> length result"
proof -
  let ?rs = "as_array (mtr_recipients command)"
  let ?run = "for_topics M (mtr_transactionId command) (mtr_environmentId command)
                (mtr_organizationId command) (mtr_userId command) (findTopics E ?rs) [] w"
  obtain ts where ts: "fst ?run = Inr ts"
    using for_topics_result [of M "mtr_transactionId command" "mtr_environmentId command"
        "mtr_organizationId command" "mtr_userId command" "findTopics E ?rs" "[]" w] by simp
  have "fst (execute M E command w) = Inr (map mapSubscriber (directs E ?rs) @ ts)"
    using ts
    by (cases ?run)
       (simp add: execute_def getSubscribersFromAllTopics_def findSubscribers_def
          directs_filter Let_def)
  then show ?thesis by simp
qed

theorem direct_prefix_witness:
  "\<exists>result.
     fst (execute usecase_rejecting_sink enum_values mixed_command quiet) = Inr result \<and>
     take 3 result = [subscriberId_only ''u1'', subscriber_u2, group_entry] \<and>
     3 \<le> length result"
proof -
  have d: "directs enum_values (as_array (mtr_recipients mixed_command)) =
             [Str ''u1'', subscriber_u2, group_entry]"
    by (simp add: example_defs classifier_defs)
  show ?thesis
    using direct_prefix [of usecase_rejecting_sink enum_values mixed_command quiet]
    by (simp add: d mapSubscriber_def subscriber_u2_def group_entry_def numeral_3_eq_3)
qed

text \<open>
  C10. A single recipient \<open>r\<close> is processed as the one-element list \<open>[r]\<close>: by
  \<^verbatim>\<open>MapTriggerRecipients.execute\<close>, by the controller's \<^verbatim>\<open>aggregateSubscribers\<close>, and so
  by the whole handler \<^verbatim>\<open>trackEvent\<close>.
\<close>

theorem single_recipient_as_singleton:
  "execute M E (command\<lparr>mtr_recipients := Single r\<rparr>) w =
     execute M E (command\<lparr>mtr_recipients := Many [r]\<rparr>) w
   \<and> aggregateSubscribers E (body\<lparr>body_to := Single r\<rparr>) =
       aggregateSubscribers E (body\<lparr>body_to := Many [r]\<rparr>)
   \<and> trackEvent E C user (body\<lparr>body_to := Single r\<rparr>) q =
       trackEvent E C user (body\<lparr>body_to := Many [r]\<rparr>) q"
proof -
  have arr: "as_array (Single r) = as_array (Many [r])"
    by (simp add: as_array_def)
  have agg: "aggregateSubscribers E (body\<lparr>body_to := Single r\<rparr>) =
               aggregateSubscribers E (body\<lparr>body_to := Many [r]\<rparr>)"
    by (simp add: aggregateSubscribers_def arr)
  have "execute M E (command\<lparr>mtr_recipients := Single r\<rparr>) w =
          execute M E (command\<lparr>mtr_recipients := Many [r]\<rparr>) w"
    by (simp add: execute_def arr)
  moreover have "trackEvent E C user (body\<lparr>body_to := Single r\<rparr>) q =
                   trackEvent E C user (body\<lparr>body_to := Many [r]\<rparr>) q"
    by (simp add: trackEvent_def agg Let_def split: prod.splits option.splits)
  ultimately show ?thesis using agg by simp
qed

theorem single_recipient_as_singleton_witness:
  "execute usecase_accepting_sink enum_values (mixed_command\<lparr>mtr_recipients := Single (Str ''u1'')\<rparr>) quiet =
     execute usecase_accepting_sink enum_values (mixed_command\<lparr>mtr_recipients := Many [Str ''u1'']\<rparr>) quiet
   \<and> aggregateSubscribers enum_values (request_to (Many []) Undefined None\<lparr>body_to := Single (Str ''u1'')\<rparr>) =
       aggregateSubscribers enum_values (request_to (Many []) Undefined None\<lparr>body_to := Many [Str ''u1'']\<rparr>)
   \<and> trackEvent enum_values acknowledging session_user
         (request_to (Many []) Undefined None\<lparr>body_to := Single (Str ''u1'')\<rparr>) idle =
       trackEvent enum_values acknowledging session_user
         (request_to (Many []) Undefined None\<lparr>body_to := Many [Str ''u1'']\<rparr>) idle"
  using single_recipient_as_singleton [where M = usecase_accepting_sink and E = enum_values
      and command = mixed_command and r = "Str ''u1''" and w = quiet
      and body = "request_to (Many []) Undefined None" and C = acknowledging
      and user = session_user and q = idle] .

text \<open>
  C4, as amended. A trigger request whose actor is a topic reference is not rejected for
  its actor. \<^verbatim>\<open>mapActor\<close> returns the actor unchanged; the handler makes no call of the
  topic resolver; and when the transaction id is accepted, the last call of the handler is
  the dispatch, with that actor in the command, and its answer is the result of the request.
\<close>

theorem topic_actor_passes_through:
  assumes "isTopic E (body_actor body)"
  shows "mapActor (body_actor body) = body_actor body \<and>
         (\<exists>new.
            invoked (snd (trackEvent E C user body q)) = invoked q @ new \<and>
            filter is_resolver_call new = [] \<and>
            (fst (validation C user (body_transactionId body) (services q)) = None \<longrightarrow>
               (\<exists>command.
                  last new = Call_triggerEvent_execute command \<and>
                  tec_actor command = body_actor body \<and>
                  fst (trackEvent E C user body q) =
                    fst (triggerEvent_execute C command
                           (snd (validation C user (body_transactionId body) (services q)))))))"
proof -
  let ?t = "body_transactionId body"
  have actor: "mapActor (body_actor body) = body_actor body"
    using assms
    by (cases "body_actor body")
       (simp_all add: isTopic_def type_of_def mapActor_def falsy_def mapSubscriber_def)
  have quiet_calls: "filter is_resolver_call (transaction_calls C user ?t (services q)) = []"
    by (simp add: transaction_calls_def split: option.splits)
  have "\<exists>new.
            invoked (snd (trackEvent E C user body q)) = invoked q @ new \<and>
            filter is_resolver_call new = [] \<and>
            (fst (validation C user ?t (services q)) = None \<longrightarrow>
               (\<exists>command.
                  last new = Call_triggerEvent_execute command \<and>
                  tec_actor command = body_actor body \<and>
                  fst (trackEvent E C user body q) =
                    fst (triggerEvent_execute C command
                           (snd (validation C user ?t (services q))))))"
  proof (cases "fst (validation C user ?t (services q))")
    case None
    let ?command = "trigger_command E user body (transactionId_for C ?t (services q))"
    let ?new = "transaction_calls C user ?t (services q) @
                  [Call_aggregateSubscribers, Call_mapSubscribers, Call_mapActor,
                   Call_triggerEvent_execute ?command]"
    have "invoked (snd (trackEvent E C user body q)) = invoked q @ ?new"
      using None trackEvent_passed [of C user body q E] by (simp add: Let_def)
    moreover have "filter is_resolver_call ?new = []"
      using quiet_calls by simp
    moreover have "last ?new = Call_triggerEvent_execute ?command"
      by simp
    moreover have "tec_actor ?command = body_actor body"
      using actor by (simp add: trigger_command_def)
    moreover have "fst (trackEvent E C user body q) =
                     fst (triggerEvent_execute C ?command (snd (validation C user ?t (services q))))"
      using None trackEvent_passed [of C user body q E] by (simp add: Let_def)
    ultimately show ?thesis by blast
  next
    case (Some e)
    then show ?thesis
      using trackEvent_thrown [of C user body q e E] quiet_calls by simp
  qed
  with actor show ?thesis by simp
qed

theorem topic_actor_passes_through_witness:
  "mapActor (topic_ref ''A'') = topic_ref ''A'' \<and>
   (\<exists>new.
      invoked (snd (trackEvent enum_values acknowledging session_user
         (request_to (Many [Str ''u1'']) (topic_ref ''A'') (Some ''tx'')) idle)) = new \<and>
      filter is_resolver_call new = [] \<and>
      (\<exists>command.
         last new = Call_triggerEvent_execute command \<and>
         tec_actor command = topic_ref ''A'' \<and>
         fst (trackEvent enum_values acknowledging session_user
                (request_to (Many [Str ''u1'']) (topic_ref ''A'') (Some ''tx'')) idle) =
           fst (triggerEvent_execute acknowledging command ())))"
proof -
  let ?body = "request_to (Many [Str ''u1'']) (topic_ref ''A'') (Some ''tx'')"
  have a: "isTopic enum_values (body_actor ?body)"
    by (simp add: controller_defs enum_values_def topic_ref_def isTopic_def type_of_def)
  have v: "fst (validation acknowledging session_user (body_transactionId ?body) (services idle)) = None"
    by (simp add: controller_defs handling_defs)
  have s: "snd (validation acknowledging session_user (body_transactionId ?body) (services idle)) = ()"
    by simp
  have b: "body_actor ?body = topic_ref ''A''" and i: "invoked idle = []"
    by (simp_all add: controller_defs)
  from topic_actor_passes_through [OF a, of acknowledging session_user idle]
  show ?thesis
    unfolding b i s using v by simp
qed

text \<open>
  C4 as it is written fails: a request with the topic reference \<open>topic_ref ''A''\<close> as
  its actor is dispatched and acknowledged.
\<close>

theorem topic_actor_dispatched:
  "trackEvent enum_values acknowledging session_user
     (request_to (Many [Str ''u1'']) (topic_ref ''A'') (Some ''tx'')) idle =
   (Inr \<lparr>acknowledged = True, status = ''processed'', res_transactionId = ''tx''\<rparr>,
    \<lparr>services = (),
     invoked =
       [Call_validateTransactionIdProperty ''tx'' ''org'' ''env'',
        Call_aggregateSubscribers, Call_mapSubscribers, Call_mapActor,
        Call_triggerEvent_execute
          \<lparr>tec_userId = ''usr'', tec_environmentId = ''env'', tec_organizationId = ''org'',
           tec_identifier = ''welcome'', tec_payload = (), tec_overrides = [],
           tec_to = [subscriberId_only ''u1''], tec_actor = topic_ref ''A'',
           tec_transactionId = ''tx''\<rparr>]\<rparr>)"
  by (simp add: trackEvent_def controller_defs handling_defs enum_values_def topic_ref_def
        as_array_def truthy_def type_of_def mapSubscriber_def Let_def)




text \<open>
  C1. The handler \<^verbatim>\<open>trackEvent\<close> at the list of \<^verbatim>\<open>u1\<close> and the topic \<^verbatim>\<open>A\<close>, which
  has two members: the dispatched list has the one direct entry and no topic member
  (line 76 reads \<^verbatim>\<open>// TODO: map topics\<close>), where \<^verbatim>\<open>MapTriggerRecipients.execute\<close> resolves
  the same list to three entries.
\<close>

theorem trackEvent_leaves_topic_members_out:
  "trackEvent enum_values acknowledging session_user
     (request_to (Many [Str ''u1'', topic_ref ''A'']) Undefined (Some ''tx'')) idle =
   (Inr \<lparr>acknowledged = True, status = ''processed'', res_transactionId = ''tx''\<rparr>,
    \<lparr>services = (),
     invoked =
       [Call_validateTransactionIdProperty ''tx'' ''org'' ''env'',
        Call_aggregateSubscribers, Call_mapSubscribers, Call_mapActor,
        Call_triggerEvent_execute
          \<lparr>tec_userId = ''usr'', tec_environmentId = ''env'', tec_organizationId = ''org'',
           tec_identifier = ''welcome'', tec_payload = (), tec_overrides = [],
           tec_to = [subscriberId_only ''u1''], tec_actor = Undefined,
           tec_transactionId = ''tx''\<rparr>]\<rparr>)
   \<and> fst (execute usecase_accepting_sink enum_values
            (mixed_command\<lparr>mtr_recipients := Many [Str ''u1'', topic_ref ''A'']\<rparr>) quiet) =
       Inr [subscriberId_only ''u1'', subscriberId_only ''a1'', subscriberId_only ''a2'']"
  by (simp add: trackEvent_def execute_def getSubscribersFromAllTopics_def findSubscribers_def
        findTopics_def isNotTopic_def for_topics.simps try_getTopicSubscribers_def
        controller_defs handling_defs example_defs classifier_defs Let_def)







text \<open>
  C6, as amended. In both handlers the transaction id is the value the caller supplied
  when that is a string that is not empty, and otherwise, when no value or the empty string
  was supplied, the value \<^verbatim>\<open>uuidv4\<close> generates. The first calls of a request are that
  generation, if any, and then the validation of this id by the idempotency collaborator.
  Every call of recipient or actor resolution comes after them, and none is made when the
  validation throws: the request then fails with the validator's error. Otherwise the
  command handed on carries the same id.
\<close>

theorem transaction_id_validated_first:
  "(\<forall>t x. t \<noteq> [] \<longrightarrow>
      transactionId_for C (Some t) x = t \<and>
      transaction_calls C user (Some t) x =
        [Call_validateTransactionIdProperty t (jwt_organizationId user) (jwt_environmentId user)])
   \<and> (\<forall>supplied x. supplied = None \<or> supplied = Some [] \<longrightarrow>
      transactionId_for C supplied x = fst (uuidv4 C x) \<and>
      transaction_calls C user supplied x =
        [Call_uuidv4 (fst (uuidv4 C x)),
         Call_validateTransactionIdProperty (fst (uuidv4 C x)) (jwt_organizationId user)
           (jwt_environmentId user)])
   \<and> (\<exists>rest.
      invoked (snd (trackEvent E C user body q)) =
        invoked q @ transaction_calls C user (body_transactionId body) (services q) @ rest \<and>
      (case fst (validation C user (body_transactionId body) (services q)) of
         Some e \<Rightarrow> rest = [] \<and> fst (trackEvent E C user body q) = Inl e
       | None \<Rightarrow>
           rest = [Call_aggregateSubscribers, Call_mapSubscribers, Call_mapActor,
                   Call_triggerEvent_execute
                     (trigger_command E user body
                        (transactionId_for C (body_transactionId body) (services q)))]))
   \<and> (\<exists>rest.
      invoked (snd (trackEventToAll C user broadcast q)) =
        invoked q @ transaction_calls C user (all_transactionId broadcast) (services q) @ rest \<and>
      (case fst (validation C user (all_transactionId broadcast) (services q)) of
         Some e \<Rightarrow> rest = [] \<and> fst (trackEventToAll C user broadcast q) = Inl e
       | None \<Rightarrow>
           rest = [Call_mapActor,
                   Call_triggerEventToAll_execute
                     (broadcast_command user broadcast
                        (transactionId_for C (all_transactionId broadcast) (services q)))]))"
proof -
  have single: "\<exists>rest.
      invoked (snd (trackEvent E C user body q)) =
        invoked q @ transaction_calls C user (body_transactionId body) (services q) @ rest \<and>
      (case fst (validation C user (body_transactionId body) (services q)) of
         Some e \<Rightarrow> rest = [] \<and> fst (trackEvent E C user body q) = Inl e
       | None \<Rightarrow>
           rest = [Call_aggregateSubscribers, Call_mapSubscribers, Call_mapActor,
                   Call_triggerEvent_execute
                     (trigger_command E user body
                        (transactionId_for C (body_transactionId body) (services q)))])"
  proof (cases "fst (validation C user (body_transactionId body) (services q))")
    case None
    then show ?thesis
      using trackEvent_passed [of C user body q E] by (simp add: Let_def)
  next
    case (Some e)
    then show ?thesis
      using trackEvent_thrown [of C user body q e E] by simp
  qed
  have all: "\<exists>rest.
      invoked (snd (trackEventToAll C user broadcast q)) =
        invoked q @ transaction_calls C user (all_transactionId broadcast) (services q) @ rest \<and>
      (case fst (validation C user (all_transactionId broadcast) (services q)) of
         Some e \<Rightarrow> rest = [] \<and> fst (trackEventToAll C user broadcast q) = Inl e
       | None \<Rightarrow>
           rest = [Call_mapActor,
                   Call_triggerEventToAll_execute
                     (broadcast_command user broadcast
                        (transactionId_for C (all_transactionId broadcast) (services q)))])"
  proof (cases "fst (validation C user (all_transactionId broadcast) (services q))")
    case None
    then show ?thesis
      using trackEventToAll_passed [of C user broadcast q] by (simp add: Let_def)
  next
    case (Some e)
    then show ?thesis
      using trackEventToAll_thrown [of C user broadcast q e] by simp
  qed
  have supplied: "transactionId_for C (Some t) x = t \<and>
      transaction_calls C user (Some t) x =
        [Call_validateTransactionIdProperty t (jwt_organizationId user) (jwt_environmentId user)]"
    if "t \<noteq> []" for t x
    using that by (simp add: transactionId_for_def transaction_calls_def)
  have generated: "transactionId_for C supplied x = fst (uuidv4 C x) \<and>
      transaction_calls C user supplied x =
        [Call_uuidv4 (fst (uuidv4 C x)),
         Call_validateTransactionIdProperty (fst (uuidv4 C x)) (jwt_organizationId user)
           (jwt_environmentId user)]"
    if "supplied = None \<or> supplied = Some []" for supplied x
    using that by (auto simp: transactionId_for_def transaction_calls_def)
  from supplied generated single all show ?thesis by blast
qed

theorem transaction_id_validated_first_witness:
  "invoked (snd (trackEvent enum_values acknowledging session_user
       (request_to (Many [Str ''u1'']) Undefined (Some ''tx'')) idle)) =
     [Call_validateTransactionIdProperty ''tx'' ''org'' ''env'',
      Call_aggregateSubscribers, Call_mapSubscribers, Call_mapActor,
      Call_triggerEvent_execute
        \<lparr>tec_userId = ''usr'', tec_environmentId = ''env'', tec_organizationId = ''org'',
         tec_identifier = ''welcome'', tec_payload = (), tec_overrides = [],
         tec_to = [subscriberId_only ''u1''], tec_actor = Undefined,
         tec_transactionId = ''tx''\<rparr>]
   \<and> invoked (snd (trackEvent enum_values acknowledging session_user
       (request_to (Many [Str ''u1'']) Undefined None) idle)) =
     [Call_uuidv4 ''d2239acb-e879-4bdb-ab6f-365b43278d8f'',
      Call_validateTransactionIdProperty ''d2239acb-e879-4bdb-ab6f-365b43278d8f'' ''org'' ''env'',
      Call_aggregateSubscribers, Call_mapSubscribers, Call_mapActor,
      Call_triggerEvent_execute
        \<lparr>tec_userId = ''usr'', tec_environmentId = ''env'', tec_organizationId = ''org'',
         tec_identifier = ''welcome'', tec_payload = (), tec_overrides = [],
         tec_to = [subscriberId_only ''u1''], tec_actor = Undefined,
         tec_transactionId = ''d2239acb-e879-4bdb-ab6f-365b43278d8f''\<rparr>]
   \<and> invoked (snd (trackEventToAll acknowledging session_user
         (broadcast_request Undefined (Some ''used'')) idle)) =
       [Call_validateTransactionIdProperty ''used'' ''org'' ''env'']
   \<and> fst (trackEventToAll acknowledging session_user
         (broadcast_request Undefined (Some ''used'')) idle) =
       Inl (Error ''transactionId is not unique'')"
proof -
  note unfolded = controller_defs handling_defs enum_values_def as_array_def truthy_def
    type_of_def mapSubscriber_def
  have supplied: "invoked (snd (trackEvent enum_values acknowledging session_user
       (request_to (Many [Str ''u1'']) Undefined (Some ''tx'')) idle)) =
     [Call_validateTransactionIdProperty ''tx'' ''org'' ''env'',
      Call_aggregateSubscribers, Call_mapSubscribers, Call_mapActor,
      Call_triggerEvent_execute
        \<lparr>tec_userId = ''usr'', tec_environmentId = ''env'', tec_organizationId = ''org'',
         tec_identifier = ''welcome'', tec_payload = (), tec_overrides = [],
         tec_to = [subscriberId_only ''u1''], tec_actor = Undefined,
         tec_transactionId = ''tx''\<rparr>]"
    using transaction_id_validated_first [where C = acknowledging
        and user = session_user and E = enum_values
        and body = "request_to (Many [Str ''u1'']) Undefined (Some ''tx'')" and q = idle
        and broadcast = "broadcast_request Undefined (Some ''used'')"]
    by (simp add: unfolded)
  have rest: "invoked (snd (trackEvent enum_values acknowledging session_user
       (request_to (Many [Str ''u1'']) Undefined None) idle)) =
     [Call_uuidv4 ''d2239acb-e879-4bdb-ab6f-365b43278d8f'',
      Call_validateTransactionIdProperty ''d2239acb-e879-4bdb-ab6f-365b43278d8f'' ''org'' ''env'',
      Call_aggregateSubscribers, Call_mapSubscribers, Call_mapActor,
      Call_triggerEvent_execute
        \<lparr>tec_userId = ''usr'', tec_environmentId = ''env'', tec_organizationId = ''org'',
         tec_identifier = ''welcome'', tec_payload = (), tec_overrides = [],
         tec_to = [subscriberId_only ''u1''], tec_actor = Undefined,
         tec_transactionId = ''d2239acb-e879-4bdb-ab6f-365b43278d8f''\<rparr>]
   \<and> invoked (snd (trackEventToAll acknowledging session_user
         (broadcast_request Undefined (Some ''used'')) idle)) =
       [Call_validateTransactionIdProperty ''used'' ''org'' ''env'']
   \<and> fst (trackEventToAll acknowledging session_user
         (broadcast_request Undefined (Some ''used'')) idle) =
       Inl (Error ''transactionId is not unique'')"
    using transaction_id_validated_first [where C = acknowledging
        and user = session_user and E = enum_values
        and body = "request_to (Many [Str ''u1'']) Undefined None" and q = idle
        and broadcast = "broadcast_request Undefined (Some ''used'')"]
    by (simp add: unfolded)
  from supplied rest show ?thesis by simp
qed

text \<open>
  C6 as it is written fails at a supplied empty string: the id that is validated and
  dispatched is the generated one, not the caller's value.
\<close>

theorem empty_transaction_id_replaced:
  "trackEvent enum_values acknowledging session_user
     (request_to (Many [Str ''u1'']) Undefined (Some '''')) idle =
   (Inr \<lparr>acknowledged = True, status = ''processed'',
         res_transactionId = ''d2239acb-e879-4bdb-ab6f-365b43278d8f''\<rparr>,
    \<lparr>services = (),
     invoked =
       [Call_uuidv4 ''d2239acb-e879-4bdb-ab6f-365b43278d8f'',
        Call_validateTransactionIdProperty ''d2239acb-e879-4bdb-ab6f-365b43278d8f'' ''org'' ''env'',
        Call_aggregateSubscribers, Call_mapSubscribers, Call_mapActor,
        Call_triggerEvent_execute
          \<lparr>tec_userId = ''usr'', tec_environmentId = ''env'', tec_organizationId = ''org'',
           tec_identifier = ''welcome'', tec_payload = (), tec_overrides = [],
           tec_to = [subscriberId_only ''u1''], tec_actor = Undefined,
           tec_transactionId = ''d2239acb-e879-4bdb-ab6f-365b43278d8f''\<rparr>]\<rparr>)"
  by (simp add: trackEvent_def controller_defs handling_defs enum_values_def
        as_array_def truthy_def type_of_def mapSubscriber_def Let_def)

text \<open>
  C8, as amended. The broadcast handler makes no call of the topic resolver, of
  \<^verbatim>\<open>aggregateSubscribers\<close> or of \<^verbatim>\<open>mapSubscribers\<close>. Its transaction handling is that
  of the single trigger: for the same supplied transaction id both handlers start with
  the same \<open>transaction_calls\<close>, and when the validation throws they end in the same
  result and state. After the transaction handling the broadcast handler calls
  \<^verbatim>\<open>mapActor\<close>, which maps an actor that is present with \<^verbatim>\<open>mapSubscriber\<close>, and then
  the broadcast dispatch, and nothing else.
\<close>

theorem broadcast_skips_to_list_resolution:
  "(\<exists>rest.
      invoked (snd (trackEventToAll C user broadcast q)) =
        invoked q @ transaction_calls C user (all_transactionId broadcast) (services q) @ rest \<and>
      (case fst (validation C user (all_transactionId broadcast) (services q)) of
         Some e \<Rightarrow> rest = []
       | None \<Rightarrow>
           rest = [Call_mapActor,
                   Call_triggerEventToAll_execute
                     (broadcast_command user broadcast
                        (transactionId_for C (all_transactionId broadcast) (services q)))]) \<and>
      Call_aggregateSubscribers \<notin>
        set (transaction_calls C user (all_transactionId broadcast) (services q) @ rest) \<and>
      Call_mapSubscribers \<notin>
        set (transaction_calls C user (all_transactionId broadcast) (services q) @ rest) \<and>
      (\<forall>c. Call_getTopicSubscribers_execute c \<notin>
        set (transaction_calls C user (all_transactionId broadcast) (services q) @ rest)))
   \<and> tea_actor (broadcast_command user broadcast tid) = mapActor (all_actor broadcast)
   \<and> (\<not> falsy (all_actor broadcast) \<longrightarrow>
        mapActor (all_actor broadcast) = mapSubscriber (all_actor broadcast))
   \<and> (body_transactionId body = all_transactionId broadcast \<longrightarrow>
        (\<exists>rest.
           invoked (snd (trackEvent E C user body q)) =
             invoked q @ transaction_calls C user (all_transactionId broadcast) (services q) @ rest) \<and>
        (\<forall>e. fst (validation C user (all_transactionId broadcast) (services q)) = Some e \<longrightarrow>
           trackEvent E C user body q = trackEventToAll C user broadcast q))"
proof -
  let ?t = "all_transactionId broadcast"
  let ?tc = "transaction_calls C user ?t (services q)"
  have tc: "Call_aggregateSubscribers \<notin> set ?tc \<and> Call_mapSubscribers \<notin> set ?tc \<and>
            (\<forall>c. Call_getTopicSubscribers_execute c \<notin> set ?tc)"
    by (auto simp: transaction_calls_def split: option.splits if_splits)
  have all: "\<exists>rest.
      invoked (snd (trackEventToAll C user broadcast q)) = invoked q @ ?tc @ rest \<and>
      (case fst (validation C user ?t (services q)) of
         Some e \<Rightarrow> rest = []
       | None \<Rightarrow>
           rest = [Call_mapActor,
                   Call_triggerEventToAll_execute
                     (broadcast_command user broadcast (transactionId_for C ?t (services q)))]) \<and>
      Call_aggregateSubscribers \<notin> set (?tc @ rest) \<and>
      Call_mapSubscribers \<notin> set (?tc @ rest) \<and>
      (\<forall>c. Call_getTopicSubscribers_execute c \<notin> set (?tc @ rest))"
  proof (cases "fst (validation C user ?t (services q))")
    case None
    then show ?thesis
      using trackEventToAll_passed [of C user broadcast q] tc by (simp add: Let_def)
  next
    case (Some e)
    then show ?thesis
      using trackEventToAll_thrown [of C user broadcast q e] tc by simp
  qed
  have actor: "tea_actor (broadcast_command user broadcast tid) = mapActor (all_actor broadcast)"
    by (simp add: broadcast_command_def)
  have mapped: "mapActor (all_actor broadcast) = mapSubscriber (all_actor broadcast)"
    if "\<not> falsy (all_actor broadcast)"
    using that by (simp add: mapActor_def)
  have single: "\<exists>rest.
           invoked (snd (trackEvent E C user body q)) = invoked q @ ?tc @ rest"
    if "body_transactionId body = ?t"
  proof (cases "fst (validation C user ?t (services q))")
    case None
    then show ?thesis
      using trackEvent_passed [of C user body q E] that by (simp add: Let_def)
  next
    case (Some e)
    then show ?thesis
      using trackEvent_thrown [of C user body q e E] that by simp
  qed
  have same: "trackEvent E C user body q = trackEventToAll C user broadcast q"
    if "body_transactionId body = ?t" and "fst (validation C user ?t (services q)) = Some e" for e
    using trackEvent_thrown [of C user body q e E] trackEventToAll_thrown [of C user broadcast q e] that
    by simp
  from all actor mapped single same show ?thesis by blast
qed

theorem broadcast_skips_to_list_resolution_witness:
  "invoked (snd (trackEventToAll acknowledging session_user
       (broadcast_request (Str ''u7'') (Some ''tx'')) idle)) =
     [Call_validateTransactionIdProperty ''tx'' ''org'' ''env'', Call_mapActor,
      Call_triggerEventToAll_execute
        \<lparr>tea_userId = ''usr'', tea_environmentId = ''env'', tea_organizationId = ''org'',
         tea_identifier = ''welcome'', tea_payload = (), tea_transactionId = ''tx'',
         tea_overrides = [], tea_actor = mapSubscriber (Str ''u7'')\<rparr>]
   \<and> trackEvent enum_values acknowledging session_user
         (request_to (Many [Str ''u1'']) Undefined (Some ''used'')) idle =
       trackEventToAll acknowledging session_user
         (broadcast_request (Str ''u7'') (Some ''used'')) idle"
proof -
  let ?b = "broadcast_request (Str ''u7'') (Some ''tx'')"
  have v: "fst (validation acknowledging session_user (all_transactionId ?b) (services idle)) = None"
    by (simp add: controller_defs handling_defs)
  have f: "\<not> falsy (all_actor ?b)"
    by (simp add: controller_defs falsy_def)
  have m: "mapActor (all_actor ?b) = mapSubscriber (Str ''u7'')"
    using broadcast_skips_to_list_resolution [where C = acknowledging
        and user = session_user and broadcast = "?b" and q = idle and tid = "''tx''"
        and body = "request_to (Many [Str ''u1'']) Undefined (Some ''tx'')" and E = enum_values] f
    by (simp add: controller_defs)
  have calls: "invoked (snd (trackEventToAll acknowledging session_user ?b idle)) =
     [Call_validateTransactionIdProperty ''tx'' ''org'' ''env'', Call_mapActor,
      Call_triggerEventToAll_execute
        \<lparr>tea_userId = ''usr'', tea_environmentId = ''env'', tea_organizationId = ''org'',
         tea_identifier = ''welcome'', tea_payload = (), tea_transactionId = ''tx'',
         tea_overrides = [], tea_actor = mapSubscriber (Str ''u7'')\<rparr>]"
    using broadcast_skips_to_list_resolution [where C = acknowledging
        and user = session_user and broadcast = "?b" and q = idle and tid = "''tx''"
        and body = "request_to (Many [Str ''u1'']) Undefined (Some ''tx'')" and E = enum_values] v m
    by (simp add: broadcast_command_def transaction_calls_def transactionId_for_def
          overrides_or_empty_def controller_defs)
  have t: "body_transactionId (request_to (Many [Str ''u1'']) Undefined (Some ''used'')) =
             all_transactionId (broadcast_request (Str ''u7'') (Some ''used''))"
    by (simp add: controller_defs)
  have u: "fst (validation acknowledging session_user
                  (all_transactionId (broadcast_request (Str ''u7'') (Some ''used'')))
                  (services idle)) = Some (Error ''transactionId is not unique'')"
    by (simp add: controller_defs handling_defs)
  have "trackEvent enum_values acknowledging session_user
          (request_to (Many [Str ''u1'']) Undefined (Some ''used'')) idle =
        trackEventToAll acknowledging session_user
          (broadcast_request (Str ''u7'') (Some ''used'')) idle"
    using broadcast_skips_to_list_resolution [where C = acknowledging
        and user = session_user and broadcast = "broadcast_request (Str ''u7'') (Some ''used'')"
        and q = idle and tid = "''tx''"
        and body = "request_to (Many [Str ''u1'']) Undefined (Some ''used'')"
        and E = enum_values] t u
    by blast
  with calls show ?thesis by simp
qed

text \<open>
  C8 as it is written fails: the broadcast handler runs the actor step. With the actor
  \<^verbatim>\<open>u7\<close> it calls \<^verbatim>\<open>mapActor\<close>, and the actor it dispatches is the one
  \<^verbatim>\<open>mapSubscriber\<close>, the mapping function of the recipients, makes of it.
\<close>

theorem broadcast_maps_actor:
  "trackEventToAll acknowledging session_user (broadcast_request (Str ''u7'') (Some ''tx'')) idle =
   (Inr \<lparr>acknowledged = True, status = ''processed'', res_transactionId = ''tx''\<rparr>,
    \<lparr>services = (),
     invoked =
       [Call_validateTransactionIdProperty ''tx'' ''org'' ''env'', Call_mapActor,
        Call_triggerEventToAll_execute
          \<lparr>tea_userId = ''usr'', tea_environmentId = ''env'', tea_organizationId = ''org'',
           tea_identifier = ''welcome'', tea_payload = (), tea_transactionId = ''tx'',
           tea_overrides = [], tea_actor = subscriberId_only ''u7''\<rparr>]\<rparr>)
   \<and> mapActor (Str ''u7'') = mapSubscriber (Str ''u7'')
   \<and> mapSubscriber (Str ''u7'') = subscriberId_only ''u7''"
  by (simp add: trackEventToAll_def controller_defs handling_defs truthy_def
        mapSubscriber_def Let_def)

end
